theory Spec2Isabelle
  imports Complex_Main
begin

section \<open>Numbers and vectors\<close>

text \<open>
  JavaScript numbers are modelled as mathematical reals: rounding, NaN and overflow of
  IEEE doubles are outside this development. The one non-finite value the code writes
  down itself, \<^verbatim>\<open>Infinity\<close>, is kept as a constructor of its own.

  \<^verbatim>\<open>THREE.Vector3\<close> is a triple of numbers; the selectors are \<open>vx\<close>, \<open>vy\<close>, \<open>vz\<close> for
  the properties \<^verbatim>\<open>x\<close>, \<^verbatim>\<open>y\<close>, \<^verbatim>\<open>z\<close>.
\<close>

datatype Vector3 = Vector3 (vx: real) (vy: real) (vz: real)

definition subVectors :: "Vector3 \<Rightarrow> Vector3 \<Rightarrow> Vector3" where
  "subVectors a b = Vector3 (vx a - vx b) (vy a - vy b) (vz a - vz b)"

definition crossVectors :: "Vector3 \<Rightarrow> Vector3 \<Rightarrow> Vector3" where
  "crossVectors a b =
     Vector3 (vy a * vz b - vz a * vy b)
             (vz a * vx b - vx a * vz b)
             (vx a * vy b - vy a * vx b)"

definition length_v3 :: "Vector3 \<Rightarrow> real" where
  "length_v3 v = sqrt (vx v * vx v + vy v * vy v + vz v * vz v)"

definition distanceTo :: "Vector3 \<Rightarrow> Vector3 \<Rightarrow> real" where
  "distanceTo a b =
     sqrt ((vx a - vx b) * (vx a - vx b) + (vy a - vy b) * (vy a - vy b)
           + (vz a - vz b) * (vz a - vz b))"

section \<open>Utils (src/js/reference.js, class Utils)\<close>

text \<open>\<^verbatim>\<open>Utils.calculateDistance(point1, point2)\<close>: \<^verbatim>\<open>point1.distanceTo(point2)\<close>.\<close>

definition calculateDistance :: "Vector3 \<Rightarrow> Vector3 \<Rightarrow> real" where
  "calculateDistance point1 point2 = distanceTo point1 point2"

text \<open>
  \<^verbatim>\<open>Utils.calculatePolygonArea(points)\<close>. The loop
  \<^verbatim>\<open>for (let i = 1; i < n - 1; i++)\<close> is the recursion on \<open>i\<close>; its guard
  \<^verbatim>\<open>i < n - 1\<close> is written \<open>i + 1 < n\<close> so that no subtraction on naturals is involved.
\<close>

function calculatePolygonArea_loop :: "Vector3 list \<Rightarrow> nat \<Rightarrow> real \<Rightarrow> real" where
  "calculatePolygonArea_loop points i totalArea =
     (if i + 1 < length points then
        (let basePoint = points ! 0;
             point1 = points ! i;
             point2 = points ! (i + 1);
             v1 = subVectors point1 basePoint;
             v2 = subVectors point2 basePoint;
             cross = crossVectors v1 v2
         in calculatePolygonArea_loop points (i + 1) (totalArea + length_v3 cross / 2))
      else totalArea)"
  by pat_completeness auto
termination
  by (relation "measure (\<lambda>(points, i, totalArea). length points - i)") auto

declare calculatePolygonArea_loop.simps [simp del]

definition calculatePolygonArea :: "Vector3 list \<Rightarrow> real" where
  "calculatePolygonArea points =
     (if length points < 3 then 0 else calculatePolygonArea_loop points 1 0)"

text \<open>
  \<^verbatim>\<open>Utils.isPointInPolygon(point, polygonPoints)\<close>. The loop
  \<^verbatim>\<open>for (let i = 0, j = n - 1; i < n; j = i++)\<close> carries \<open>i\<close>, \<open>j\<close> and the parity
  flag. The JavaScript \<^verbatim>\<open>&&\<close> does not evaluate the division when the two
  \<open>z\<close>-tests agree; in HOL the conjunction is then false whatever the quotient is.
\<close>

function isPointInPolygon_loop ::
  "real \<Rightarrow> real \<Rightarrow> Vector3 list \<Rightarrow> nat \<Rightarrow> nat \<Rightarrow> bool \<Rightarrow> bool" where
  "isPointInPolygon_loop x z polygonPoints i j inside =
     (if i < length polygonPoints then
        (let xi = vx (polygonPoints ! i); zi = vz (polygonPoints ! i);
             xj = vx (polygonPoints ! j); zj = vz (polygonPoints ! j)
         in isPointInPolygon_loop x z polygonPoints (i + 1) i
              (if ((zi > z) \<noteq> (zj > z)) \<and> (x < (xj - xi) * (z - zi) / (zj - zi) + xi)
               then \<not> inside else inside))
      else inside)"
  by pat_completeness auto
termination
  by (relation "measure (\<lambda>(x, z, polygonPoints, i, j, inside). length polygonPoints - i)") auto

declare isPointInPolygon_loop.simps [simp del]

definition isPointInPolygon :: "Vector3 \<Rightarrow> Vector3 list \<Rightarrow> bool" where
  "isPointInPolygon point polygonPoints =
     (if length polygonPoints < 3 then False
      else isPointInPolygon_loop (vx point) (vz point) polygonPoints
             0 (length polygonPoints - 1) False)"

text \<open>
  \<^verbatim>\<open>Utils.projectToScreen(point, camera, renderer = null)\<close>. The transform
  \<^verbatim>\<open>point.clone().project(camera)\<close> belongs to the three.js library and is taken as
  a field of the camera. The viewport is the renderer's canvas when a renderer is passed and
  the window otherwise. The object literal \<^verbatim>\<open>{ x, y }\<close> that is returned is a map
  from property names to numbers, so that the set of its properties can be spoken about.
\<close>

record camera =
  cam_project :: "Vector3 \<Rightarrow> Vector3"
  cam_position :: Vector3

record viewport =
  width_px :: real
  height_px :: real

type_synonym js_object = "string \<rightharpoonup> real"

definition projectToScreen ::
  "Vector3 \<Rightarrow> camera \<Rightarrow> viewport option \<Rightarrow> viewport \<Rightarrow> js_object" where
  "projectToScreen point cam renderer window =
     (let screenPos = cam_project cam point;
          width = (case renderer of Some r \<Rightarrow> width_px r | None \<Rightarrow> width_px window);
          height = (case renderer of Some r \<Rightarrow> height_px r | None \<Rightarrow> height_px window);
          x = (vx screenPos * 0.5 + 0.5) * width;
          y = (- vy screenPos * 0.5 + 0.5) * height
      in [''x'' \<mapsto> x, ''y'' \<mapsto> y])"

text \<open>
  The visibility test of the label updaters
  (\<^verbatim>\<open>ReferenceSystem.updateLabelPositions\<close>, src/js/reference.js, and
  \<^verbatim>\<open>HIMPSystem.updateLabelPositions\<close>, src/js/himp.js), which project the position
  themselves and do not call \<^verbatim>\<open>Utils.projectToScreen\<close>:
  \<^verbatim>\<open>const distance = this.camera.position.distanceTo(reference.position);
  const isVisible = vector.z < 1 && distance < 100;\<close>
\<close>

definition isVisible :: "camera \<Rightarrow> Vector3 \<Rightarrow> bool" where
  "isVisible cam position =
     (let vector = cam_project cam position;
          distance = distanceTo (cam_position cam) position
      in vz vector < 1 \<and> distance < 100)"

section \<open>MeasurementSystem (src/js/scene.js, class MeasurementSystem)\<close>

text \<open>
  A measurement object. The three.js meshes and DOM labels it also carries
  (\<^verbatim>\<open>spheres\<close>, \<^verbatim>\<open>lines\<close>, \<^verbatim>\<open>labels\<close>) and its creation time are display state
  that no function below reads back into the fields kept here; they are left out. The
  identifier \<^verbatim>\<open>`M${n}`\<close> is kept as the number \<open>n\<close>.
\<close>

record measurement =
  id_m :: nat
  points :: "Vector3 list"
  color :: nat
  isClosed :: bool
  isLocked :: bool
  totalDistance :: real
  area :: real

datatype log_entry = Log string | Warn string

datatype error = TypeError

text \<open>\<^verbatim>\<open>updateMeasurementDistance(measurement)\<close>.\<close>

function updateMeasurementDistance_loop :: "Vector3 list \<Rightarrow> nat \<Rightarrow> real \<Rightarrow> real" where
  "updateMeasurementDistance_loop pts i totalDist =
     (if i < length pts then
        updateMeasurementDistance_loop pts (i + 1)
          (totalDist + calculateDistance (pts ! (i - 1)) (pts ! i))
      else totalDist)"
  by pat_completeness auto
termination
  by (relation "measure (\<lambda>(pts, i, totalDist). length pts - i)") auto

declare updateMeasurementDistance_loop.simps [simp del]

definition updateMeasurementDistance :: "measurement \<Rightarrow> measurement" where
  "updateMeasurementDistance m =
     (let totalDist = updateMeasurementDistance_loop (points m) 1 0;
          totalDist' = (if isClosed m \<and> length (points m) \<ge> 3
                        then totalDist + calculateDistance (points m ! (length (points m) - 1))
                                                           (points m ! 0)
                        else totalDist)
      in m\<lparr>totalDistance := totalDist'\<rparr>)"

text \<open>
  \<^verbatim>\<open>updateMeasurementVisuals(measurement)\<close>: after clearing the old lines and labels it
  returns at once when there are fewer than two points; otherwise it rebuilds the lines,
  recomputes the area of a closed measurement with at least three points, and last calls
  \<^verbatim>\<open>updateMeasurementDistance\<close>.
\<close>

definition updateMeasurementVisuals :: "measurement \<Rightarrow> measurement" where
  "updateMeasurementVisuals m =
     (if length (points m) < 2 then m
      else
        (let m' = (if isClosed m \<and> length (points m) \<ge> 3
                   then m\<lparr>area := calculatePolygonArea (points m)\<rparr>
                   else m)
         in updateMeasurementDistance m'))"

text \<open>\<^verbatim>\<open>addPointToMeasurement(measurement, point)\<close>; the result pairs the measurement
  with what was written to the console.\<close>

definition addPointToMeasurement ::
  "measurement \<Rightarrow> Vector3 \<Rightarrow> measurement \<times> log_entry list" where
  "addPointToMeasurement m point =
     (if isLocked m then (m, [Warn ''Cannot add point to locked measurement''])
      else (m\<lparr>points := points m @ [point]\<rparr>, [Log ''Added point'']))"

text \<open>\<^verbatim>\<open>deletePointFromMeasurement(measurement, pointIndex)\<close>;
  \<^verbatim>\<open>points.splice(pointIndex, 1)\<close> is \<open>take\<close> followed by \<open>drop\<close>.\<close>

definition splice1 :: "'a list \<Rightarrow> nat \<Rightarrow> 'a list" where
  "splice1 xs i = take i xs @ drop (i + 1) xs"

definition deletePointFromMeasurement ::
  "measurement \<Rightarrow> int \<Rightarrow> measurement \<times> log_entry list" where
  "deletePointFromMeasurement m pointIndex =
     (if isLocked m then (m, [Warn ''Cannot delete point from locked measurement''])
      else if pointIndex < 0 \<or> pointIndex \<ge> int (length (points m)) then (m, [])
      else (updateMeasurementVisuals (m\<lparr>points := splice1 (points m) (nat pointIndex)\<rparr>),
            [Log ''Deleted point'']))"

text \<open>
  The state of the measurement system, with the one global it touches:
  \<open>controls\<close> is \<^verbatim>\<open>window.inspector3D.controls\<close>, \<open>None\<close> when the application object
  or its controls manager is missing, and otherwise the \<^verbatim>\<open>enabled\<close> flag that
  \<^verbatim>\<open>ControlsManager.setEnabled\<close> writes.
\<close>

record measurement_system =
  active :: bool
  measurements :: "measurement list"
  currentMeasurementIndex :: int
  measurementIdCounter :: nat
  isEditing :: bool
  editingPointIndex :: int
  editingMeasurementIndex :: int
  controls :: "bool option"
  console :: "log_entry list"

text \<open>The constructor; \<^verbatim>\<open>ControlsManager\<close> starts enabled.\<close>

definition init_system :: "bool \<Rightarrow> measurement_system" where
  "init_system hasControls =
     \<lparr>active = False, measurements = [], currentMeasurementIndex = - 1,
      measurementIdCounter = 1, isEditing = False, editingPointIndex = - 1,
      editingMeasurementIndex = - 1,
      controls = (if hasControls then Some True else None), console = []\<rparr>"

definition MEASUREMENT_COLORS :: "nat list" where
  "MEASUREMENT_COLORS =
     [16729156, 4521796, 4474111, 16777028, 16729343,
      4521983, 16746564, 8978244, 4491519, 16729224]"

text \<open>
  A measurement object held in \<^verbatim>\<open>this.measurements\<close> is referred to by its index in
  that array: every object there is a fresh literal pushed once by
  \<^verbatim>\<open>createNewMeasurement\<close>, so \<^verbatim>\<open>this.measurements.indexOf(measurement)\<close> is that
  index.
\<close>

definition getCurrentMeasurement :: "measurement_system \<Rightarrow> nat option" where
  "getCurrentMeasurement s =
     (if currentMeasurementIndex s \<ge> 0
         \<and> currentMeasurementIndex s < int (length (measurements s))
      then Some (nat (currentMeasurementIndex s)) else None)"

definition createNewMeasurement :: "measurement_system \<Rightarrow> measurement_system \<times> nat" where
  "createNewMeasurement s =
     (let m = \<lparr>id_m = measurementIdCounter s, points = [],
                color = MEASUREMENT_COLORS !
                          (length (measurements s) mod length MEASUREMENT_COLORS),
                isClosed = False, isLocked = False, totalDistance = 0, area = 0\<rparr>
      in (s\<lparr>measurements := measurements s @ [m],
             currentMeasurementIndex := int (length (measurements s)),
             measurementIdCounter := measurementIdCounter s + 1,
             console := console s @ [Log ''Created new measurement'']\<rparr>,
          length (measurements s)))"

text \<open>\<^verbatim>\<open>findClosestPoint(position, maxDistance = 0.1)\<close>: the two nested loops; the
  accumulator is (closestMeasurement, closestPointIndex, closestDistance).\<close>

type_synonym closest = "nat option \<times> int \<times> real"

function findClosestPoint_inner ::
  "Vector3 \<Rightarrow> nat \<Rightarrow> Vector3 list \<Rightarrow> nat \<Rightarrow> closest \<Rightarrow> closest" where
  "findClosestPoint_inner position i pts j acc =
     (if j < length pts then
        (let distance = distanceTo position (pts ! j)
         in findClosestPoint_inner position i pts (j + 1)
              (if distance < snd (snd acc) then (Some i, int j, distance) else acc))
      else acc)"
  by pat_completeness auto
termination
  by (relation "measure (\<lambda>(position, i, pts, j, acc). length pts - j)") auto

declare findClosestPoint_inner.simps [simp del]

function findClosestPoint_outer ::
  "Vector3 \<Rightarrow> measurement list \<Rightarrow> nat \<Rightarrow> closest \<Rightarrow> closest" where
  "findClosestPoint_outer position ms i acc =
     (if i < length ms then
        findClosestPoint_outer position ms (i + 1)
          (findClosestPoint_inner position i (points (ms ! i)) 0 acc)
      else acc)"
  by pat_completeness auto
termination
  by (relation "measure (\<lambda>(position, ms, i, acc). length ms - i)") auto

declare findClosestPoint_outer.simps [simp del]

definition findClosestPoint :: "measurement_system \<Rightarrow> Vector3 \<Rightarrow> real \<Rightarrow> closest" where
  "findClosestPoint s position maxDistance =
     findClosestPoint_outer position (measurements s) 0 (None, - 1, maxDistance)"

definition startEditing :: "measurement_system \<Rightarrow> nat \<Rightarrow> int \<Rightarrow> measurement_system" where
  "startEditing s measurementIdx pointIndex =
     s\<lparr>isEditing := True,
       editingPointIndex := pointIndex,
       editingMeasurementIndex := int measurementIdx,
       controls := (case controls s of Some e \<Rightarrow> Some False | None \<Rightarrow> None),
       console := console s @ [Log ''Started editing point'']\<rparr>"

definition stopEditing :: "measurement_system \<Rightarrow> measurement_system" where
  "stopEditing s =
     s\<lparr>isEditing := False,
       editingPointIndex := - 1,
       editingMeasurementIndex := - 1,
       controls := (case controls s of Some e \<Rightarrow> Some True | None \<Rightarrow> None),
       console := console s @ [Log ''Stopped editing'']\<rparr>"

definition activate :: "measurement_system \<Rightarrow> measurement_system" where
  "activate s = s\<lparr>active := True, console := console s @ [Log ''Measurement mode activated'']\<rparr>"

definition deactivate :: "measurement_system \<Rightarrow> measurement_system" where
  "deactivate s =
     (let s' = stopEditing (s\<lparr>active := False\<rparr>)
      in s'\<lparr>console := console s' @ [Log ''Measurement mode deactivated'']\<rparr>)"

text \<open>The handlers take the result of \<^verbatim>\<open>getIntersectionPoint(event)\<close>, the ray cast
  against the loaded models, as an argument: \<open>None\<close> is \<^verbatim>\<open>null\<close>.\<close>

definition handleDeletePoint :: "measurement_system \<Rightarrow> Vector3 option \<Rightarrow> measurement_system" where
  "handleDeletePoint s intersectionPoint =
     (case intersectionPoint of
        None \<Rightarrow> s
      | Some p \<Rightarrow>
          (case findClosestPoint s p 0.1 of
             (Some i, pointIndex, d) \<Rightarrow>
               (if pointIndex \<noteq> - 1 then
                  (let (m', out) = deletePointFromMeasurement (measurements s ! i) pointIndex
                   in s\<lparr>measurements := (measurements s)[i := m'],
                         console := console s @ out\<rparr>)
                else s)
           | (None, pointIndex, d) \<Rightarrow> s))"

definition handleClick ::
  "measurement_system \<Rightarrow> bool \<Rightarrow> Vector3 option \<Rightarrow> measurement_system" where
  "handleClick s shiftKey intersectionPoint =
     (if isEditing s then s
      else if shiftKey then handleDeletePoint s intersectionPoint
      else
        (case intersectionPoint of
           None \<Rightarrow> s
         | Some p \<Rightarrow>
             (let (s1, i) = (case getCurrentMeasurement s of
                               Some i \<Rightarrow> (s, i)
                             | None \<Rightarrow> createNewMeasurement s);
                  (m1, out) = addPointToMeasurement (measurements s1 ! i) p;
                  m2 = updateMeasurementVisuals m1
              in s1\<lparr>measurements := (measurements s1)[i := m2],
                     console := console s1 @ out\<rparr>)))"

definition handleMouseDown ::
  "measurement_system \<Rightarrow> bool \<Rightarrow> Vector3 option \<Rightarrow> measurement_system" where
  "handleMouseDown s ctrlKey intersectionPoint =
     (if \<not> ctrlKey then s
      else
        (case intersectionPoint of
           None \<Rightarrow> s
         | Some p \<Rightarrow>
             (case findClosestPoint s p 0.1 of
                (Some i, pointIndex, d) \<Rightarrow>
                  (if pointIndex \<noteq> - 1 then startEditing s i pointIndex else s)
              | (None, pointIndex, d) \<Rightarrow> s)))"

text \<open>
  \<^verbatim>\<open>handleMouseMove(event)\<close>. Reading \<^verbatim>\<open>.points\<close> of a missing array element, or
  calling \<^verbatim>\<open>.copy\<close> on a missing point, raises a TypeError before anything is written.
\<close>

definition handleMouseMove ::
  "measurement_system \<Rightarrow> Vector3 option \<Rightarrow> error + measurement_system" where
  "handleMouseMove s intersectionPoint =
     (if \<not> isEditing s then Inr s
      else
        (case intersectionPoint of
           None \<Rightarrow> Inr s
         | Some p \<Rightarrow>
             (let mi = editingMeasurementIndex s; pj = editingPointIndex s
              in if mi < 0 \<or> mi \<ge> int (length (measurements s)) then Inl TypeError
                 else
                   (let m = measurements s ! nat mi
                    in if pj < 0 \<or> pj \<ge> int (length (points m)) then Inl TypeError
                       else
                         (let m1 = m\<lparr>points := (points m)[nat pj := p]\<rparr>;
                              m2 = updateMeasurementVisuals m1
                          in Inr (s\<lparr>measurements := (measurements s)[nat mi := m2]\<rparr>))))))"

definition handleMouseUp :: "measurement_system \<Rightarrow> measurement_system" where
  "handleMouseUp s = (if isEditing s then stopEditing s else s)"

definition closeMeasurement :: "measurement_system \<Rightarrow> measurement_system" where
  "closeMeasurement s =
     (case getCurrentMeasurement s of
        None \<Rightarrow> s\<lparr>console := console s @ [Warn ''Need at least 3 points to close measurement'']\<rparr>
      | Some i \<Rightarrow>
          (let m = measurements s ! i
           in if length (points m) < 3 then
                s\<lparr>console := console s @ [Warn ''Need at least 3 points to close measurement'']\<rparr>
              else if isLocked m then
                s\<lparr>console := console s @ [Warn ''Cannot close locked measurement'']\<rparr>
              else
                s\<lparr>measurements :=
                    (measurements s)[i := updateMeasurementVisuals (m\<lparr>isClosed := True\<rparr>)],
                  console := console s @ [Log ''Closed measurement'']\<rparr>))"

definition switchToMeasurement :: "measurement_system \<Rightarrow> int \<Rightarrow> measurement_system" where
  "switchToMeasurement s index =
     (if index \<ge> 0 \<and> index < int (length (measurements s))
      then s\<lparr>currentMeasurementIndex := index,
             console := console s @ [Log ''Switched to measurement'']\<rparr>
      else s)"

definition clearMeasurement :: "measurement_system \<Rightarrow> nat \<Rightarrow> measurement_system" where
  "clearMeasurement s i =
     (if isLocked (measurements s ! i) then
        s\<lparr>console := console s @ [Warn ''Cannot clear locked measurement'']\<rparr>
      else
        s\<lparr>measurements := splice1 (measurements s) i,
          currentMeasurementIndex :=
            (if currentMeasurementIndex s \<ge> int i then currentMeasurementIndex s - 1
             else currentMeasurementIndex s),
          console := console s @ [Log ''Cleared measurement'']\<rparr>)"

definition clearCurrent :: "measurement_system \<Rightarrow> measurement_system" where
  "clearCurrent s =
     (case getCurrentMeasurement s of
        Some i \<Rightarrow> (if \<not> isLocked (measurements s ! i) then clearMeasurement s i else s)
      | None \<Rightarrow> s)"

text \<open>
  What can happen to the system: the four canvas listeners of
  \<^verbatim>\<open>setupEventListeners\<close>, each behind its guard, and the methods the application
  calls from its mode buttons and keyboard shortcuts (src/js/modelLoader.js, class
  Inspector3D). An exception raised inside a listener ends that listener; the state is
  what it was when the exception was raised.
\<close>

datatype event =
    Click bool "Vector3 option"
  | MouseDown bool "Vector3 option"
  | MouseMove "Vector3 option"
  | MouseUp
  | Activate
  | Deactivate
  | CloseMeasurement
  | CreateNewMeasurement
  | SwitchToMeasurement int
  | ClearCurrent

fun dispatch :: "event \<Rightarrow> measurement_system \<Rightarrow> measurement_system" where
  "dispatch (Click shiftKey hit) s = (if active s then handleClick s shiftKey hit else s)"
| "dispatch (MouseDown ctrlKey hit) s =
     (if active s \<and> ctrlKey then handleMouseDown s ctrlKey hit else s)"
| "dispatch (MouseMove hit) s =
     (if active s \<and> isEditing s then
        (case handleMouseMove s hit of Inl e \<Rightarrow> s | Inr s' \<Rightarrow> s')
      else s)"
| "dispatch MouseUp s = (if active s \<and> isEditing s then handleMouseUp s else s)"
| "dispatch Activate s = activate s"
| "dispatch Deactivate s = deactivate s"
| "dispatch CloseMeasurement s = closeMeasurement s"
| "dispatch CreateNewMeasurement s = fst (createNewMeasurement s)"
| "dispatch (SwitchToMeasurement index) s = switchToMeasurement s index"
| "dispatch ClearCurrent s = clearCurrent s"

inductive reachable :: "bool \<Rightarrow> measurement_system \<Rightarrow> bool" for hasControls :: bool where
  reach_init: "reachable hasControls (init_system hasControls)"
| reach_step: "reachable hasControls s \<Longrightarrow> reachable hasControls (dispatch e s)"

fun run :: "event list \<Rightarrow> measurement_system \<Rightarrow> measurement_system" where
  "run [] s = s"
| "run (e # es) s = run es (dispatch e s)"

text \<open>
  The invariant of the editing sub-state: editing happens only while the measure tool is
  active, and the controls, when there are any, are enabled exactly when no point is being
  edited.
\<close>

definition editing_inv :: "bool \<Rightarrow> measurement_system \<Rightarrow> bool" where
  "editing_inv hasControls s =
     ((isEditing s \<longrightarrow> active s)
      \<and> controls s = (if hasControls then Some (\<not> isEditing s) else None))"

section \<open>AnnotationSystem (src/unnamed/part_001, class AnnotationSystem)\<close>

text \<open>A JavaScript number that may be \<^verbatim>\<open>Infinity\<close>, with \<^verbatim>\<open><\<close> and
  \<^verbatim>\<open>Math.min\<close> on it.\<close>

datatype jsnum = Finite real | Infinity

fun num_less :: "jsnum \<Rightarrow> jsnum \<Rightarrow> bool" where
  "num_less (Finite a) (Finite b) = (a < b)"
| "num_less (Finite a) Infinity = True"
| "num_less Infinity b = False"

fun Math_min :: "jsnum \<Rightarrow> jsnum \<Rightarrow> jsnum" where
  "Math_min (Finite a) (Finite b) = Finite (min a b)"
| "Math_min (Finite a) Infinity = Finite a"
| "Math_min Infinity b = b"

text \<open>
  \<^verbatim>\<open>getDistanceToMeasurementLines\<close> calls \<^verbatim>\<open>Utils.distancePointToLine(point, a, b)\<close>.
  A static method of a class is a property that is either a function or missing; calling a
  missing one raises a TypeError. The functions of the annotation system are first written
  for any such property (suffix \<open>_with\<close>), then instantiated with the one class
  \<^verbatim>\<open>Utils\<close> has.

  Class \<^verbatim>\<open>Utils\<close> (src/js/reference.js) declares setMeshUnits, getMeshUnits,
  convertToMeters, convertFromMeters, toFeetInches, formatDistance, formatArea,
  calculatePolygonArea, calculatePolygonCenter, isPointInPolygon, calculateDistance,
  calculateMidpoint, projectToScreen, screenToNDC, generateRandomColor, hexToRgb, rgbToHex,
  generateId, clamp, lerp, mapRange, roundTo, pointsEqual, createSphereGeometry,
  createTubeGeometry, disposeObject, disposeHierarchy, formatTimestamp, formatFilesize,
  debounce, throttle, deepClone, isValidNumber, sanitizeFilename, now and logTiming. It
  declares no \<^verbatim>\<open>distancePointToLine\<close>, and nothing else in the repository adds one.
\<close>

type_synonym segment_distance = "Vector3 \<Rightarrow> Vector3 \<Rightarrow> Vector3 \<Rightarrow> real"

definition Utils_distancePointToLine :: "segment_distance option" where
  "Utils_distancePointToLine = None"

definition call_static ::
  "segment_distance option \<Rightarrow> Vector3 \<Rightarrow> Vector3 \<Rightarrow> Vector3 \<Rightarrow> error + real" where
  "call_static f point a b = (case f of None \<Rightarrow> Inl TypeError | Some g \<Rightarrow> Inr (g point a b))"

function getDistanceToMeasurementLines_loop ::
  "segment_distance option \<Rightarrow> Vector3 \<Rightarrow> Vector3 list \<Rightarrow> nat \<Rightarrow> jsnum \<Rightarrow> error + jsnum" where
  "getDistanceToMeasurementLines_loop f point pts i minDistance =
     (if i < length pts then
        (case call_static f point (pts ! (i - 1)) (pts ! i) of
           Inl e \<Rightarrow> Inl e
         | Inr distance \<Rightarrow>
             getDistanceToMeasurementLines_loop f point pts (i + 1)
               (Math_min minDistance (Finite distance)))
      else Inr minDistance)"
  by pat_completeness auto
termination
  by (relation "measure (\<lambda>(f, point, pts, i, minDistance). length pts - i)") auto

declare getDistanceToMeasurementLines_loop.simps [simp del]

definition getDistanceToMeasurementLines_with ::
  "segment_distance option \<Rightarrow> Vector3 \<Rightarrow> measurement \<Rightarrow> error + jsnum" where
  "getDistanceToMeasurementLines_with f point m =
     (if length (points m) < 2 then Inr Infinity
      else
        (case getDistanceToMeasurementLines_loop f point (points m) 1 Infinity of
           Inl e \<Rightarrow> Inl e
         | Inr minDistance \<Rightarrow>
             (if isClosed m \<and> length (points m) \<ge> 3 then
                (case call_static f point (points m ! (length (points m) - 1)) (points m ! 0) of
                   Inl e \<Rightarrow> Inl e
                 | Inr distance \<Rightarrow> Inr (Math_min minDistance (Finite distance)))
              else Inr minDistance)))"

definition getDistanceToMeasurementLines :: "Vector3 \<Rightarrow> measurement \<Rightarrow> error + jsnum" where
  "getDistanceToMeasurementLines = getDistanceToMeasurementLines_with Utils_distancePointToLine"

text \<open>The link object \<^verbatim>\<open>{ measurement, relationship, distance }\<close>; the measurement is
  referred to by its index in the array that is searched.\<close>

datatype relationship = inside | near_line

record link =
  link_measurement :: nat
  link_relationship :: relationship
  link_distance :: jsnum

text \<open>
  \<^verbatim>\<open>findEnclosingMeasurement(point)\<close>. The argument \<open>app\<close> is
  \<^verbatim>\<open>window.inspector3D.measurement.measurements\<close>, \<open>None\<close> when the application
  object or its measurement system is missing. One loop over the measurements does both
  tests: it returns at the first closed polygon holding the point, and otherwise goes on to
  the line distance of the same measurement.
\<close>

function findEnclosingMeasurement_loop ::
  "segment_distance option \<Rightarrow> Vector3 \<Rightarrow> measurement list \<Rightarrow> nat \<Rightarrow> link option \<Rightarrow> jsnum
     \<Rightarrow> error + link option" where
  "findEnclosingMeasurement_loop f point ms i bestMatch bestDistance =
     (if i < length ms then
        (let m = ms ! i
         in if isClosed m \<and> length (points m) \<ge> 3 \<and> isPointInPolygon point (points m) then
              Inr (Some \<lparr>link_measurement = i, link_relationship = inside,
                         link_distance = Finite 0\<rparr>)
            else
              (case getDistanceToMeasurementLines_with f point m of
                 Inl e \<Rightarrow> Inl e
               | Inr lineDistance \<Rightarrow>
                   (if num_less lineDistance (Finite 0.5) \<and> num_less lineDistance bestDistance
                    then findEnclosingMeasurement_loop f point ms (i + 1)
                           (Some \<lparr>link_measurement = i, link_relationship = near_line,
                                  link_distance = lineDistance\<rparr>)
                           lineDistance
                    else findEnclosingMeasurement_loop f point ms (i + 1)
                           bestMatch bestDistance)))
      else Inr bestMatch)"
  by pat_completeness auto
termination
  by (relation "measure (\<lambda>(f, point, ms, i, bestMatch, bestDistance). length ms - i)") auto

declare findEnclosingMeasurement_loop.simps [simp del]

definition findEnclosingMeasurement_with ::
  "segment_distance option \<Rightarrow> measurement list option \<Rightarrow> Vector3 \<Rightarrow> error + link option" where
  "findEnclosingMeasurement_with f app point =
     (case app of
        None \<Rightarrow> Inr None
      | Some ms \<Rightarrow> findEnclosingMeasurement_loop f point ms 0 None Infinity)"

definition findEnclosingMeasurement ::
  "measurement list option \<Rightarrow> Vector3 \<Rightarrow> error + link option" where
  "findEnclosingMeasurement = findEnclosingMeasurement_with Utils_distancePointToLine"

text \<open>
  Two abbreviations for statements about the loop: the test of the first branch of
  \<^verbatim>\<open>findEnclosingMeasurement\<close>, and the line distance of a measurement when a helper
  \<open>d\<close> is supplied (it then never raises).
\<close>

definition encloses :: "Vector3 \<Rightarrow> measurement \<Rightarrow> bool" where
  "encloses p m = (isClosed m \<and> 3 \<le> length (points m) \<and> isPointInPolygon p (points m))"

definition lineDistance_with :: "segment_distance \<Rightarrow> Vector3 \<Rightarrow> measurement \<Rightarrow> jsnum" where
  "lineDistance_with d p m =
     (case getDistanceToMeasurementLines_with (Some d) p m of
        Inr r \<Rightarrow> r | Inl e \<Rightarrow> Infinity)"

section \<open>The perimeter in the words of the specification\<close>

text \<open>
  The specification's perimeter: the sum of the lengths of consecutive segments of the
  point sequence, plus the closing segment (from the last point back to the first) if and
  only if the measurement is closed. These definitions follow the specification, not the
  code; they are what \<^verbatim>\<open>totalDistance\<close> is compared with.
\<close>

definition segments_length :: "Vector3 list \<Rightarrow> real" where
  "segments_length pts = (\<Sum>k = 1..<length pts. distanceTo (pts ! (k - 1)) (pts ! k))"

definition closing_length :: "Vector3 list \<Rightarrow> real" where
  "closing_length pts = distanceTo (pts ! (length pts - 1)) (pts ! 0)"



section \<open>Concrete inputs\<close>

text \<open>The right triangle with legs 3 and 4 in the plane \<open>y = 0\<close>, and the unit square
  of the \<open>(x, z)\<close> plane with corners at arbitrary heights.\<close>

definition right_triangle :: "Vector3 list" where
  "right_triangle = [Vector3 0 0 0, Vector3 3 0 0, Vector3 0 0 4]"

definition unit_square :: "real \<Rightarrow> real \<Rightarrow> real \<Rightarrow> real \<Rightarrow> Vector3 list" where
  "unit_square a b c d = [Vector3 0 a 0, Vector3 1 b 0, Vector3 1 c 1, Vector3 0 d 1]"

text \<open>An open, unlocked measurement with the two points \<open>(0,0,0)\<close> and \<open>(3,0,0)\<close>, as two
  clicks leave it, and a system whose current measurement it is.\<close>

definition two_point_measurement :: measurement where
  "two_point_measurement =
     \<lparr>id_m = 1, points = [Vector3 0 0 0, Vector3 3 0 0], color = 16729156,
      isClosed = False, isLocked = False, totalDistance = 3, area = 0\<rparr>"

definition two_point_system :: measurement_system where
  "two_point_system =
     \<lparr>active = True, measurements = [two_point_measurement], currentMeasurementIndex = 0,
      measurementIdCounter = 2, isEditing = False, editingPointIndex = - 1,
      editingMeasurementIndex = - 1, controls = Some True, console = []\<rparr>"

text \<open>The closed triangle \<open>(0,0,0), (3,0,0), (3,0,4)\<close> with sides 3, 4, 5, as three
  clicks and the close key leave it, and the events that build it.\<close>

definition closed_triangle :: measurement where
  "closed_triangle =
     \<lparr>id_m = 1, points = [Vector3 0 0 0, Vector3 3 0 0, Vector3 3 0 4], color = 16729156,
      isClosed = True, isLocked = False, totalDistance = 12, area = 6\<rparr>"

definition closed_triangle_events :: "event list" where
  "closed_triangle_events =
     [Activate, Click False (Some (Vector3 0 0 0)), Click False (Some (Vector3 3 0 0)),
      Click False (Some (Vector3 3 0 4)), CloseMeasurement]"

text \<open>A system whose only measurement is the two-point one with its lock set.\<close>

definition locked_system :: measurement_system where
  "locked_system =
     two_point_system\<lparr>measurements := [two_point_measurement\<lparr>isLocked := True\<rparr>]\<rparr>"

text \<open>The same system after a Ctrl-press on the point \<open>(3,0,0)\<close>.\<close>

definition editing_events :: "event list" where
  "editing_events =
     [Activate, Click False (Some (Vector3 0 0 0)), Click False (Some (Vector3 3 0 0)),
      MouseDown True (Some (Vector3 3 0 0))]"


text \<open>The closed unit square, a camera whose projection is the identity, and a window of
  800 by 600 pixels.\<close>

definition closed_square :: measurement where
  "closed_square =
     \<lparr>id_m = 2, points = unit_square 0 0 0 0, color = 4521796,
      isClosed = True, isLocked = False, totalDistance = 4, area = 1\<rparr>"

definition identity_camera :: camera where
  "identity_camera = \<lparr>cam_project = (\<lambda>v. v), cam_position = Vector3 0 0 5\<rparr>"

definition window_800_600 :: viewport where
  "window_800_600 = \<lparr>width_px = 800, height_px = 600\<rparr>"

section \<open>Square roots of the squares that occur\<close>

lemma sqrt_9: "sqrt 9 = 3"
  using real_sqrt_abs [of 3] by simp

lemma sqrt_16: "sqrt 16 = 4"
  using real_sqrt_abs [of 4] by simp

lemma sqrt_25: "sqrt 25 = 5"
  using real_sqrt_abs [of 5] by simp

lemma sqrt_144: "sqrt 144 = 12"
  using real_sqrt_abs [of 12] by simp

section \<open>Polygon area\<close>

lemma calculatePolygonArea_loop_sum:
  "calculatePolygonArea_loop ps i acc =
     acc + (\<Sum>k = i..<length ps - 1.
              length_v3 (crossVectors (subVectors (ps ! k) (ps ! 0))
                                      (subVectors (ps ! (k + 1)) (ps ! 0))) / 2)"
proof (induction ps i acc rule: calculatePolygonArea_loop.induct)
  case (1 points i totalArea)
  let ?f = "\<lambda>k. length_v3 (crossVectors (subVectors (points ! k) (points ! 0))
                                      (subVectors (points ! (k + 1)) (points ! 0))) / 2"
  show ?case
  proof (cases "i + 1 < length points")
    case True
    then have lt: "i < length points - 1" by simp
    have "calculatePolygonArea_loop points i totalArea =
            calculatePolygonArea_loop points (i + 1) (totalArea + ?f i)"
      using True by (subst calculatePolygonArea_loop.simps) (simp add: Let_def)
    also have "\<dots> = (totalArea + ?f i) + (\<Sum>k = i + 1..<length points - 1. ?f k)"
      by (rule "1.IH" [OF True refl refl refl refl refl refl])
    also have "\<dots> = totalArea + (\<Sum>k = i..<length points - 1. ?f k)"
      using lt by (simp add: sum.atLeast_Suc_lessThan)
    finally show ?thesis .
  next
    case False
    then show ?thesis
      by (subst calculatePolygonArea_loop.simps) simp
  qed
qed

lemma calculatePolygonArea_right_triangle: "calculatePolygonArea right_triangle = 6"
  by (simp add: right_triangle_def calculatePolygonArea_def calculatePolygonArea_loop.simps
      Let_def subVectors_def crossVectors_def length_v3_def sqrt_144)

lemma closeMeasurement_too_few:
  assumes "getCurrentMeasurement s = Some i" and "length (points (measurements s ! i)) < 3"
  shows "closeMeasurement s =
           s\<lparr>console := console s @ [Warn ''Need at least 3 points to close measurement'']\<rparr>"
  using assms by (simp add: closeMeasurement_def Let_def)

text \<open>
  C7. \<^verbatim>\<open>calculatePolygonArea\<close> returns 0 on every sequence of fewer than three points.
  \<^verbatim>\<open>closeMeasurement\<close> on a current measurement of fewer than three points only
  writes a warning: the measurements, and so the closed flag, stay as they were. On three
  or more points the area is the fan triangulation from the first point, the sum over
  \<open>i = 1 .. n - 2\<close> of half the length of the cross product of \<open>points[i] - points[0]\<close> and
  \<open>points[i+1] - points[0]\<close>, and for the right triangle \<open>(0,0,0), (3,0,0), (0,0,4)\<close> it
  is 6.
\<close>

theorem polygonArea_and_close:
  "(length ps < 3 \<longrightarrow> calculatePolygonArea ps = 0)
   \<and> (getCurrentMeasurement s = Some i \<and> length (points (measurements s ! i)) < 3 \<longrightarrow>
        closeMeasurement s =
          s\<lparr>console := console s @ [Warn ''Need at least 3 points to close measurement'']\<rparr>
        \<and> measurements (closeMeasurement s) = measurements s
        \<and> isClosed (measurements (closeMeasurement s) ! i) = isClosed (measurements s ! i))
   \<and> (length qs \<ge> 3 \<longrightarrow>
        calculatePolygonArea qs =
          (\<Sum>k = 1..<length qs - 1.
             length_v3 (crossVectors (subVectors (qs ! k) (qs ! 0))
                                     (subVectors (qs ! (k + 1)) (qs ! 0))) / 2))
   \<and> calculatePolygonArea [Vector3 0 0 0, Vector3 3 0 0, Vector3 0 0 4] = 6"
proof (intro conjI impI)
  assume "length ps < 3"
  then show "calculatePolygonArea ps = 0" by (simp add: calculatePolygonArea_def)
next
  assume a: "getCurrentMeasurement s = Some i \<and> length (points (measurements s ! i)) < 3"
  then show c: "closeMeasurement s =
      s\<lparr>console := console s @ [Warn ''Need at least 3 points to close measurement'']\<rparr>"
    using closeMeasurement_too_few by blast
  show "measurements (closeMeasurement s) = measurements s" by (simp add: c)
  show "isClosed (measurements (closeMeasurement s) ! i) = isClosed (measurements s ! i)"
    by (simp add: c)
next
  assume "length qs \<ge> 3"
  then show "calculatePolygonArea qs =
          (\<Sum>k = 1..<length qs - 1.
             length_v3 (crossVectors (subVectors (qs ! k) (qs ! 0))
                                     (subVectors (qs ! (k + 1)) (qs ! 0))) / 2)"
    by (simp add: calculatePolygonArea_def calculatePolygonArea_loop_sum)
next
  show "calculatePolygonArea [Vector3 0 0 0, Vector3 3 0 0, Vector3 0 0 4] = 6"
    using calculatePolygonArea_right_triangle by (simp add: right_triangle_def)
qed

theorem polygonArea_and_close_witness:
  "length [Vector3 0 0 0, Vector3 3 0 0] < 3
   \<and> calculatePolygonArea [Vector3 0 0 0, Vector3 3 0 0] = 0
   \<and> getCurrentMeasurement two_point_system = Some 0
   \<and> length (points (measurements two_point_system ! 0)) < 3
   \<and> measurements (closeMeasurement two_point_system) = measurements two_point_system
   \<and> \<not> isClosed (measurements (closeMeasurement two_point_system) ! 0)
   \<and> length right_triangle \<ge> 3
   \<and> calculatePolygonArea right_triangle = 6"
proof -
  have g: "getCurrentMeasurement two_point_system = Some 0"
    by (simp add: getCurrentMeasurement_def two_point_system_def)
  have l: "length (points (measurements two_point_system ! 0)) < 3"
    by (simp add: two_point_system_def two_point_measurement_def)
  have o: "\<not> isClosed (measurements two_point_system ! 0)"
    by (simp add: two_point_system_def two_point_measurement_def)
  show ?thesis
    using polygonArea_and_close
            [of "[Vector3 0 0 0, Vector3 3 0 0]" two_point_system 0 right_triangle] g l o
    by (simp add: right_triangle_def)
qed

section \<open>Point in polygon\<close>

lemma isPointInPolygon_unit_square_inside:
  "isPointInPolygon (Vector3 0.5 y 0.5) (unit_square a b c d)"
  by (simp add: isPointInPolygon_def unit_square_def isPointInPolygon_loop.simps Let_def)

lemma isPointInPolygon_unit_square_outside:
  "\<not> isPointInPolygon (Vector3 1.5 y 0.5) (unit_square a b c d)"
  by (simp add: isPointInPolygon_def unit_square_def isPointInPolygon_loop.simps Let_def)

text \<open>
  C8. \<^verbatim>\<open>isPointInPolygon\<close> reads only the \<open>x\<close> and \<open>z\<close> of the query point: two points
  that agree in \<open>x\<close> and \<open>z\<close> get the same answer on every polygon, whatever their \<open>y\<close>. It
  is false on every polygon of fewer than three points. On the unit square of the \<open>(x, z)\<close>
  plane, \<open>(0.5, y, 0.5)\<close> is inside and \<open>(1.5, y, 0.5)\<close> is outside for every \<open>y\<close> (and
  every height of the corners).
\<close>

theorem isPointInPolygon_xz_only:
  "(vx p = vx q \<and> vz p = vz q \<longrightarrow> isPointInPolygon p poly = isPointInPolygon q poly)
   \<and> (length short < 3 \<longrightarrow> \<not> isPointInPolygon r short)
   \<and> isPointInPolygon (Vector3 0.5 y 0.5) (unit_square a b c d)
   \<and> \<not> isPointInPolygon (Vector3 1.5 y 0.5) (unit_square a b c d)"
proof (intro conjI impI)
  assume "vx p = vx q \<and> vz p = vz q"
  then show "isPointInPolygon p poly = isPointInPolygon q poly"
    by (simp add: isPointInPolygon_def)
next
  assume "length short < 3"
  then show "\<not> isPointInPolygon r short" by (simp add: isPointInPolygon_def)
next
  show "isPointInPolygon (Vector3 0.5 y 0.5) (unit_square a b c d)"
    by (rule isPointInPolygon_unit_square_inside)
next
  show "\<not> isPointInPolygon (Vector3 1.5 y 0.5) (unit_square a b c d)"
    by (rule isPointInPolygon_unit_square_outside)
qed

theorem isPointInPolygon_xz_only_witness:
  "vx (Vector3 0.5 0 0.5) = vx (Vector3 0.5 7 0.5)
   \<and> vz (Vector3 0.5 0 0.5) = vz (Vector3 0.5 7 0.5)
   \<and> isPointInPolygon (Vector3 0.5 0 0.5) (unit_square 0 0 0 0)
   \<and> isPointInPolygon (Vector3 0.5 7 0.5) (unit_square 0 0 0 0)
   \<and> length [Vector3 0 0 0, Vector3 1 0 0] < 3
   \<and> \<not> isPointInPolygon (Vector3 0.5 0 0) [Vector3 0 0 0, Vector3 1 0 0]
   \<and> \<not> isPointInPolygon (Vector3 1.5 (- 2) 0.5) (unit_square 0 0 0 0)"
  using isPointInPolygon_xz_only
          [of "Vector3 0.5 0 0.5" "Vector3 0.5 7 0.5" "unit_square 0 0 0 0"
              "[Vector3 0 0 0, Vector3 1 0 0]" "Vector3 0.5 0 0" 7 0 0 0 0]
        isPointInPolygon_xz_only
          [of "Vector3 0.5 0 0.5" "Vector3 0.5 7 0.5" "unit_square 0 0 0 0"
              "[Vector3 0 0 0, Vector3 1 0 0]" "Vector3 0.5 0 0" "- 2" 0 0 0 0]
  by simp

section \<open>Deleting a point\<close>

text \<open>
  C10. With an index that is negative or not below the number of points,
  \<^verbatim>\<open>deletePointFromMeasurement\<close> returns the measurement as it was (points, closed flag,
  total distance, area and every other field); nothing is removed and no element is read.
  The console gets nothing, or the warning when the measurement is locked.
\<close>

theorem deletePoint_out_of_range_noop:
  "pointIndex < 0 \<or> pointIndex \<ge> int (length (points m)) \<Longrightarrow>
     fst (deletePointFromMeasurement m pointIndex) = m
     \<and> snd (deletePointFromMeasurement m pointIndex) =
         (if isLocked m then [Warn ''Cannot delete point from locked measurement''] else [])"
  by (auto simp add: deletePointFromMeasurement_def)

theorem deletePoint_out_of_range_noop_witness:
  "((- 1 :: int) < 0 \<or> (- 1 :: int) \<ge> int (length (points two_point_measurement)))
   \<and> deletePointFromMeasurement two_point_measurement (- 1) = (two_point_measurement, [])
   \<and> ((2 :: int) < 0 \<or> (2 :: int) \<ge> int (length (points two_point_measurement)))
   \<and> deletePointFromMeasurement two_point_measurement 2 = (two_point_measurement, [])"
proof -
  have u: "\<not> isLocked two_point_measurement" by (simp add: two_point_measurement_def)
  have h1: "(- 1 :: int) < 0 \<or> (- 1 :: int) \<ge> int (length (points two_point_measurement))"
    by simp
  have h2: "(2 :: int) < 0 \<or> (2 :: int) \<ge> int (length (points two_point_measurement))"
    by (simp add: two_point_measurement_def)
  show ?thesis
    using deletePoint_out_of_range_noop [OF h1] deletePoint_out_of_range_noop [OF h2] u h1 h2
    by (simp add: prod_eq_iff)
qed

section \<open>Derived metrics after a change of the points\<close>

lemma updateMeasurementDistance_loop_sum:
  "updateMeasurementDistance_loop pts i acc =
     acc + (\<Sum>k = i..<length pts. distanceTo (pts ! (k - 1)) (pts ! k))"
proof (induction pts i acc rule: updateMeasurementDistance_loop.induct)
  case (1 pts i totalDist)
  let ?f = "\<lambda>k. distanceTo (pts ! (k - 1)) (pts ! k)"
  show ?case
  proof (cases "i < length pts")
    case True
    have "updateMeasurementDistance_loop pts i totalDist =
            updateMeasurementDistance_loop pts (i + 1) (totalDist + ?f i)"
      using True
      by (subst updateMeasurementDistance_loop.simps) (simp add: calculateDistance_def)
    also have "\<dots> = (totalDist + ?f i) + (\<Sum>k = i + 1..<length pts. ?f k)"
      using "1.IH" [OF True] by (simp add: calculateDistance_def)
    also have "\<dots> = totalDist + (\<Sum>k = i..<length pts. ?f k)"
      using True by (simp add: sum.atLeast_Suc_lessThan)
    finally show ?thesis .
  next
    case False
    then show ?thesis
      by (subst updateMeasurementDistance_loop.simps) simp
  qed
qed

lemma updateMeasurementDistance_total:
  "totalDistance (updateMeasurementDistance m) =
     segments_length (points m)
     + (if isClosed m \<and> length (points m) \<ge> 3 then closing_length (points m) else 0)"
  by (simp add: updateMeasurementDistance_def Let_def updateMeasurementDistance_loop_sum
      segments_length_def closing_length_def calculateDistance_def)

lemma updateMeasurementDistance_fields [simp]:
  "points (updateMeasurementDistance m) = points m"
  "isClosed (updateMeasurementDistance m) = isClosed m"
  "isLocked (updateMeasurementDistance m) = isLocked m"
  "area (updateMeasurementDistance m) = area m"
  "id_m (updateMeasurementDistance m) = id_m m"
  "color (updateMeasurementDistance m) = color m"
  by (simp_all add: updateMeasurementDistance_def Let_def)

lemma updateMeasurementVisuals_fields [simp]:
  "points (updateMeasurementVisuals m) = points m"
  "isClosed (updateMeasurementVisuals m) = isClosed m"
  "isLocked (updateMeasurementVisuals m) = isLocked m"
  "id_m (updateMeasurementVisuals m) = id_m m"
  "color (updateMeasurementVisuals m) = color m"
  by (simp_all add: updateMeasurementVisuals_def Let_def)

lemma updateMeasurementVisuals_total:
  "length (points m) \<ge> 2 \<Longrightarrow>
   totalDistance (updateMeasurementVisuals m) =
     segments_length (points m)
     + (if isClosed m \<and> length (points m) \<ge> 3 then closing_length (points m) else 0)"
  by (simp add: updateMeasurementVisuals_def Let_def updateMeasurementDistance_total)

lemma updateMeasurementVisuals_few:
  "length (points m) < 2 \<Longrightarrow> updateMeasurementVisuals m = m"
  by (simp add: updateMeasurementVisuals_def)

lemma segments_length_2: "segments_length [a, b] = distanceTo a b"
  by (simp add: segments_length_def)



text \<open>The concrete measurements above are what the handlers produce.\<close>

lemma closed_triangle_reached:
  "measurements (run closed_triangle_events (init_system True)) = [closed_triangle]"
  by (simp add: closed_triangle_events_def init_system_def activate_def handleClick_def
      getCurrentMeasurement_def createNewMeasurement_def addPointToMeasurement_def
      MEASUREMENT_COLORS_def closeMeasurement_def closed_triangle_def
      updateMeasurementVisuals_def updateMeasurementDistance_def Let_def
      updateMeasurementDistance_loop.simps calculateDistance_def distanceTo_def
      calculatePolygonArea_def calculatePolygonArea_loop.simps subVectors_def
      crossVectors_def length_v3_def sqrt_9 sqrt_16 sqrt_25 sqrt_144)

lemma editing_state:
  "run editing_events (init_system True) =
     \<lparr>active = True, measurements = [two_point_measurement], currentMeasurementIndex = 0,
      measurementIdCounter = 2, isEditing = True, editingPointIndex = 1,
      editingMeasurementIndex = 0, controls = Some False,
      console = [Log ''Measurement mode activated'', Log ''Created new measurement'',
                 Log ''Added point'', Log ''Added point'', Log ''Started editing point'']\<rparr>"
  by (simp add: editing_events_def init_system_def activate_def handleClick_def
      getCurrentMeasurement_def createNewMeasurement_def addPointToMeasurement_def
      MEASUREMENT_COLORS_def two_point_measurement_def handleMouseDown_def
      findClosestPoint_def startEditing_def
      findClosestPoint_outer.simps findClosestPoint_inner.simps
      updateMeasurementVisuals_def updateMeasurementDistance_def Let_def
      updateMeasurementDistance_loop.simps calculateDistance_def distanceTo_def sqrt_9)

lemma closed_triangle_delete_last:
  "fst (deletePointFromMeasurement closed_triangle 2) =
     closed_triangle\<lparr>points := [Vector3 0 0 0, Vector3 3 0 0], totalDistance := 3\<rparr>"
  by (simp add: deletePointFromMeasurement_def closed_triangle_def splice1_def
      updateMeasurementVisuals_def updateMeasurementDistance_def Let_def
      updateMeasurementDistance_loop.simps calculateDistance_def distanceTo_def sqrt_9)

text \<open>
  The early return of \<^verbatim>\<open>updateMeasurementVisuals\<close> comes before the call of
  \<^verbatim>\<open>updateMeasurementDistance\<close>: deleting a point of the two-point measurement leaves
  one point and the old total distance 3.
\<close>

lemma totalDistance_stale_below_two_points:
  "fst (deletePointFromMeasurement two_point_measurement 0) =
     two_point_measurement\<lparr>points := [Vector3 3 0 0]\<rparr>
   \<and> totalDistance (fst (deletePointFromMeasurement two_point_measurement 0)) = 3"
  by (simp add: deletePointFromMeasurement_def two_point_measurement_def splice1_def
      updateMeasurementVisuals_def)

text \<open>
  The area is written only for a closed measurement of at least three points: after the
  last point of the closed triangle is deleted, the stored area is still 6.
\<close>

lemma area_stale_below_three_points:
  "area (fst (deletePointFromMeasurement closed_triangle 2)) = 6"
  by (simp add: closed_triangle_delete_last) (simp add: closed_triangle_def)





section \<open>The closed flag after a deletion\<close>

lemma deletePoint_isClosed:
  "isClosed (fst (deletePointFromMeasurement m pointIndex)) = isClosed m"
  by (simp add: deletePointFromMeasurement_def)

text \<open>
  \<^verbatim>\<open>deletePointFromMeasurement\<close> has no statement that writes the closed flag, and the
  recomputation it ends with writes the area only for a closed measurement of at least
  three points. So a deletion that takes an unlocked closed measurement from three points
  to two leaves the flag set; the total distance then is the length of the one segment.
\<close>

lemma deletePoint_closed_three_points:
  assumes "\<not> isLocked m" and "isClosed m" and "length (points m) = 3"
    and "0 \<le> pointIndex" and "pointIndex < 3"
  shows "length (points (fst (deletePointFromMeasurement m pointIndex))) = 2"
    and "isClosed (fst (deletePointFromMeasurement m pointIndex))"
    and "area (fst (deletePointFromMeasurement m pointIndex)) = area m"
    and "totalDistance (fst (deletePointFromMeasurement m pointIndex)) =
           distanceTo (points (fst (deletePointFromMeasurement m pointIndex)) ! 0)
                      (points (fst (deletePointFromMeasurement m pointIndex)) ! 1)"
proof -
  let ?m = "m\<lparr>points := splice1 (points m) (nat pointIndex)\<rparr>"
  have d: "fst (deletePointFromMeasurement m pointIndex) = updateMeasurementVisuals ?m"
    using assms by (simp add: deletePointFromMeasurement_def)
  have l: "length (points ?m) = 2"
    using assms by (auto simp add: splice1_def)
  then have "\<exists>u v. points ?m = [u, v]"
    by (simp only: numeral_2_eq_2 length_Suc_conv length_0_conv) blast
  then obtain u v where uv: "points ?m = [u, v]" by blast
  have t: "totalDistance (updateMeasurementVisuals ?m) = distanceTo u v"
    using updateMeasurementVisuals_total [of ?m] l uv by (simp add: segments_length_2)
  show "length (points (fst (deletePointFromMeasurement m pointIndex))) = 2"
    unfolding d using l by simp
  show "isClosed (fst (deletePointFromMeasurement m pointIndex))"
    unfolding d using assms(2) by simp
  show "area (fst (deletePointFromMeasurement m pointIndex)) = area m"
    unfolding d using l
    by (simp add: updateMeasurementVisuals_def updateMeasurementDistance_def Let_def)
  show "totalDistance (fst (deletePointFromMeasurement m pointIndex)) =
           distanceTo (points (fst (deletePointFromMeasurement m pointIndex)) ! 0)
                      (points (fst (deletePointFromMeasurement m pointIndex)) ! 1)"
    unfolding d using t uv by simp
qed

text \<open>
  C3. The claim: deleting a point of a closed measurement with exactly three points
  forces its closed flag to false, and its stored area becomes unset or 0 at the next
  recomputation of the derived metrics. On the closed triangle \<open>(0,0,0), (3,0,0), (3,0,4)\<close>
  (unlocked, area 6), deleting the point of index 2 leaves the two points \<open>(0,0,0)\<close> and
  \<open>(3,0,0)\<close>, and after the recomputation that \<^verbatim>\<open>deletePointFromMeasurement\<close> itself
  runs the closed flag is still set and the stored area is still 6. The readout
  (\<^verbatim>\<open>measurement.isClosed && area > 0\<close>, src/js/scene.js), the export
  (src/js/scene.js, src/js/export.js) and the link panel of the annotation system read
  the flag and the area with no test on the number of points.
\<close>

theorem closed_flag_and_area_survive_delete:
  "isClosed closed_triangle \<and> length (points closed_triangle) = 3
   \<and> points (fst (deletePointFromMeasurement closed_triangle 2))
       = [Vector3 0 0 0, Vector3 3 0 0]
   \<and> isClosed (fst (deletePointFromMeasurement closed_triangle 2))
   \<and> area (fst (deletePointFromMeasurement closed_triangle 2)) = 6
   \<and> isClosed (updateMeasurementVisuals (fst (deletePointFromMeasurement closed_triangle 2)))
   \<and> area (updateMeasurementVisuals (fst (deletePointFromMeasurement closed_triangle 2))) = 6"
  by (simp add: closed_triangle_delete_last)
     (simp add: closed_triangle_def updateMeasurementVisuals_def
        updateMeasurementDistance_def Let_def)

section \<open>Locked measurements\<close>

text \<open>The operations that test the lock: on a locked measurement each of them writes a
  warning and changes nothing.\<close>

lemma locked_add_delete_noop:
  "isLocked m \<Longrightarrow>
     addPointToMeasurement m p = (m, [Warn ''Cannot add point to locked measurement''])
     \<and> deletePointFromMeasurement m i =
         (m, [Warn ''Cannot delete point from locked measurement''])"
  by (simp add: addPointToMeasurement_def deletePointFromMeasurement_def)

lemma locked_close_clear_noop:
  "getCurrentMeasurement s = Some i \<Longrightarrow> isLocked (measurements s ! i) \<Longrightarrow>
     measurements (closeMeasurement s) = measurements s
     \<and> (\<exists>w. console (closeMeasurement s) = console s @ [Warn w])
     \<and> clearMeasurement s i =
         s\<lparr>console := console s @ [Warn ''Cannot clear locked measurement'']\<rparr>
     \<and> clearCurrent s = s"
  by (simp add: closeMeasurement_def clearMeasurement_def clearCurrent_def Let_def)

text \<open>
  C4. The claim: on a locked measurement every mutation is a no-op with a logged warning,
  and in particular the Ctrl-drag path leaves its points unchanged. In the code neither
  \<^verbatim>\<open>handleMouseDown\<close>, \<^verbatim>\<open>startEditing\<close> nor \<^verbatim>\<open>handleMouseMove\<close> reads
  \<^verbatim>\<open>isLocked\<close>. On the system whose only measurement is locked, with points
  \<open>(0,0,0)\<close> and \<open>(3,0,0)\<close>, a Ctrl-press on \<open>(3,0,0)\<close> followed by a move to
  \<open>(3,0,4)\<close> rewrites the second point and the total distance, and no warning is
  written.
\<close>

theorem locked_measurement_point_moved:
  "isLocked (measurements locked_system ! 0)
   \<and> points (measurements locked_system ! 0) = [Vector3 0 0 0, Vector3 3 0 0]
   \<and> run [MouseDown True (Some (Vector3 3 0 0)), MouseMove (Some (Vector3 3 0 4))]
         locked_system =
       locked_system
         \<lparr>measurements :=
            [two_point_measurement
               \<lparr>isLocked := True, points := [Vector3 0 0 0, Vector3 3 0 4],
                totalDistance := 5\<rparr>],
          console := [Log ''Started editing point''],
          isEditing := True, editingPointIndex := 1, editingMeasurementIndex := 0,
          controls := Some False\<rparr>"
  by (simp add: locked_system_def two_point_system_def two_point_measurement_def
      handleMouseDown_def handleMouseMove_def findClosestPoint_def startEditing_def
      findClosestPoint_outer.simps findClosestPoint_inner.simps
      updateMeasurementVisuals_def updateMeasurementDistance_def Let_def
      updateMeasurementDistance_loop.simps calculateDistance_def distanceTo_def sqrt_9 sqrt_25)

section \<open>Projection to the screen\<close>

text \<open>
  C5, as the claim states it: the record returned by \<^verbatim>\<open>projectToScreen\<close> contains a
  visibility flag. The object returned has no property \<^verbatim>\<open>visible\<close>.
\<close>

theorem projectToScreen_no_visible_counterexample:
  "projectToScreen (Vector3 0 0 0) identity_camera None window_800_600 ''visible'' = None"
  by (simp add: projectToScreen_def Let_def)

text \<open>
  C5, amended. \<^verbatim>\<open>projectToScreen\<close> returns an object with exactly the two properties
  \<open>x\<close> and \<open>y\<close>: the normalized device coordinates of the projected point mapped to
  pixels, \<open>(ndc.x * 0.5 + 0.5) * width\<close> and \<open>(- ndc.y * 0.5 + 0.5) * height\<close>, against
  the renderer's canvas when a renderer is given and the window otherwise. The visibility
  test \<open>depth < 1 \<and> distanceToCamera < 100\<close> is computed by the label updaters of the
  reference and condition-score systems, which do not call \<^verbatim>\<open>projectToScreen\<close>.
\<close>

theorem projectToScreen_returns_x_y:
  "dom (projectToScreen point cam renderer window) = {''x'', ''y''}
   \<and> projectToScreen point cam renderer window ''x'' =
       Some ((vx (cam_project cam point) * 0.5 + 0.5)
             * width_px (case renderer of Some r \<Rightarrow> r | None \<Rightarrow> window))
   \<and> projectToScreen point cam renderer window ''y'' =
       Some ((- vy (cam_project cam point) * 0.5 + 0.5)
             * height_px (case renderer of Some r \<Rightarrow> r | None \<Rightarrow> window))
   \<and> isVisible cam point =
       (vz (cam_project cam point) < 1 \<and> distanceTo (cam_position cam) point < 100)"
  by (cases renderer) (auto simp add: projectToScreen_def isVisible_def Let_def)

section \<open>The editing sub-state and the camera controls\<close>

lemma handleDeletePoint_mode:
  "active (handleDeletePoint s h) = active s
   \<and> isEditing (handleDeletePoint s h) = isEditing s
   \<and> controls (handleDeletePoint s h) = controls s"
  by (simp add: handleDeletePoint_def Let_def split: option.splits prod.splits)

lemma handleClick_mode:
  "active (handleClick s k h) = active s
   \<and> isEditing (handleClick s k h) = isEditing s
   \<and> controls (handleClick s k h) = controls s"
  by (simp add: handleClick_def handleDeletePoint_mode createNewMeasurement_def Let_def
      split: option.splits prod.splits)

lemma handleMouseMove_mode:
  "handleMouseMove s h = Inr s' \<Longrightarrow>
   active s' = active s \<and> isEditing s' = isEditing s \<and> controls s' = controls s"
  by (auto simp add: handleMouseMove_def Let_def split: option.splits if_splits)

lemma closeMeasurement_mode:
  "active (closeMeasurement s) = active s
   \<and> isEditing (closeMeasurement s) = isEditing s
   \<and> controls (closeMeasurement s) = controls s"
  by (simp add: closeMeasurement_def Let_def split: option.splits)

lemma clearCurrent_mode:
  "active (clearCurrent s) = active s
   \<and> isEditing (clearCurrent s) = isEditing s
   \<and> controls (clearCurrent s) = controls s"
  by (simp add: clearCurrent_def clearMeasurement_def split: option.splits)

lemma handleMouseDown_mode:
  "handleMouseDown s c h = s \<or> (\<exists>i j. handleMouseDown s c h = startEditing s i j)"
  by (auto simp add: handleMouseDown_def split: option.splits prod.splits)

lemma editing_inv_same_mode:
  "editing_inv hc s \<Longrightarrow>
   active s' = active s \<and> isEditing s' = isEditing s \<and> controls s' = controls s \<Longrightarrow>
   editing_inv hc s'"
  by (simp add: editing_inv_def)

lemma editing_inv_startEditing:
  "editing_inv hc s \<Longrightarrow> active s \<Longrightarrow> editing_inv hc (startEditing s i j)"
  by (cases hc) (simp_all add: editing_inv_def startEditing_def)

lemma editing_inv_stopEditing:
  "editing_inv hc s \<Longrightarrow> editing_inv hc (stopEditing s)"
  by (cases hc) (simp_all add: editing_inv_def stopEditing_def)

lemma editing_inv_dispatch:
  assumes I: "editing_inv hc s"
  shows "editing_inv hc (dispatch e s)"
proof (cases e)
  case (Click k h)
  show ?thesis
  proof (cases "active s")
    case True
    then show ?thesis
      using editing_inv_same_mode [OF I handleClick_mode [of s k h]] Click by simp
  next
    case False
    then show ?thesis using I Click by simp
  qed
next
  case (MouseDown c h)
  show ?thesis
  proof (cases "active s \<and> c")
    case True
    from handleMouseDown_mode [of s c h] show ?thesis
    proof
      assume "handleMouseDown s c h = s"
      then show ?thesis using I True MouseDown by simp
    next
      assume "\<exists>i j. handleMouseDown s c h = startEditing s i j"
      then obtain i j where "handleMouseDown s c h = startEditing s i j" by blast
      then show ?thesis
        using editing_inv_startEditing [OF I, of i j] True MouseDown by simp
    qed
  next
    case False
    then show ?thesis using I MouseDown by auto
  qed
next
  case (MouseMove h)
  show ?thesis
  proof (cases "handleMouseMove s h")
    case (Inl err)
    then show ?thesis using I MouseMove by simp
  next
    case (Inr s')
    show ?thesis
      using editing_inv_same_mode [OF I handleMouseMove_mode [OF Inr]] I Inr MouseMove
      by simp
  qed
next
  case MouseUp
  show ?thesis
  proof (cases "active s \<and> isEditing s")
    case True
    then show ?thesis
      using editing_inv_stopEditing [OF I] MouseUp by (simp add: handleMouseUp_def)
  next
    case False
    then show ?thesis using I MouseUp by auto
  qed
next
  case Activate
  have "editing_inv hc (activate s)"
    using I by (cases hc) (simp_all add: editing_inv_def activate_def)
  then show ?thesis using Activate by simp
next
  case Deactivate
  have "editing_inv hc (deactivate s)"
    using I by (cases hc) (simp_all add: editing_inv_def deactivate_def stopEditing_def Let_def)
  then show ?thesis using Deactivate by simp
next
  case CloseMeasurement
  then show ?thesis
    using editing_inv_same_mode [OF I closeMeasurement_mode [of s]] by simp
next
  case CreateNewMeasurement
  have "editing_inv hc (fst (createNewMeasurement s))"
    by (rule editing_inv_same_mode [OF I]) (simp add: createNewMeasurement_def Let_def)
  then show ?thesis using CreateNewMeasurement by simp
next
  case (SwitchToMeasurement k)
  have "editing_inv hc (switchToMeasurement s k)"
    by (rule editing_inv_same_mode [OF I]) (simp add: switchToMeasurement_def)
  then show ?thesis using SwitchToMeasurement by simp
next
  case ClearCurrent
  then show ?thesis
    using editing_inv_same_mode [OF I clearCurrent_mode [of s]] by simp
qed

lemma editing_invariant: "reachable hasControls s \<Longrightarrow> editing_inv hasControls s"
proof (induction rule: reachable.induct)
  case reach_init
  show ?case by (simp add: editing_inv_def init_system_def)
next
  case (reach_step s e)
  then show ?case by (simp add: editing_inv_dispatch)
qed

lemma reachable_run: "reachable hc s \<Longrightarrow> reachable hc (run es s)"
  by (induction es arbitrary: s) (auto intro: reach_step)

text \<open>
  C9. In every state the system can reach from its constructor by canvas events and the
  application's calls: the controls are never disabled outside editing, and never enabled
  during it; \<^verbatim>\<open>startEditing\<close> enters editing and disables the controls (when the
  application has a controls manager), and so does every Ctrl-press that enters editing;
  a pointer release always leaves the system out of editing with the controls enabled,
  and changes no measurement, whether or not the drag moved anything.
\<close>

theorem editing_disables_controls:
  assumes "reachable hasControls s"
  shows "(controls s = Some False \<longrightarrow> isEditing s)
       \<and> (isEditing s \<longrightarrow> controls s \<noteq> Some True)
       \<and> isEditing (startEditing s i j)
       \<and> controls (startEditing s i j) = (if hasControls then Some False else None)
       \<and> (isEditing (dispatch (MouseDown ctrlKey hit) s) \<longrightarrow>
            controls (dispatch (MouseDown ctrlKey hit) s) \<noteq> Some True)
       \<and> \<not> isEditing (dispatch MouseUp s)
       \<and> controls (dispatch MouseUp s) = (if hasControls then Some True else None)
       \<and> measurements (dispatch MouseUp s) = measurements s"
proof -
  have I: "isEditing s \<longrightarrow> active s"
    and C: "controls s = (if hasControls then Some (\<not> isEditing s) else None)"
    using editing_invariant [OF assms] by (simp_all add: editing_inv_def)
  have D: "controls (dispatch (MouseDown ctrlKey hit) s) =
             (if hasControls then Some (\<not> isEditing (dispatch (MouseDown ctrlKey hit) s))
              else None)"
    using editing_invariant [OF reach_step [OF assms, of "MouseDown ctrlKey hit"]]
    by (simp add: editing_inv_def)
  have up: "\<not> isEditing (dispatch MouseUp s)"
    using I by (cases "isEditing s") (simp_all add: handleMouseUp_def stopEditing_def)
  have U: "controls (dispatch MouseUp s) =
             (if hasControls then Some (\<not> isEditing (dispatch MouseUp s)) else None)"
    using editing_invariant [OF reach_step [OF assms, of MouseUp]]
    by (simp add: editing_inv_def)
  have m: "measurements (dispatch MouseUp s) = measurements s"
    by (simp add: handleMouseUp_def stopEditing_def)
  have c1: "controls s = Some False \<longrightarrow> isEditing s"
    using C by (cases hasControls) simp_all
  have c2: "isEditing s \<longrightarrow> controls s \<noteq> Some True"
    using C by (cases hasControls) simp_all
  have c3: "isEditing (startEditing s i j)" by (simp add: startEditing_def)
  have c4: "controls (startEditing s i j) = (if hasControls then Some False else None)"
    using C by (cases hasControls) (simp_all add: startEditing_def)
  have c5: "isEditing (dispatch (MouseDown ctrlKey hit) s) \<longrightarrow>
            controls (dispatch (MouseDown ctrlKey hit) s) \<noteq> Some True"
    unfolding D by (cases hasControls) simp_all
  have c7: "controls (dispatch MouseUp s) = (if hasControls then Some True else None)"
    unfolding U using up by simp
  from c1 c2 c3 c4 c5 up c7 m show ?thesis by blast
qed


theorem editing_disables_controls_witness:
  "reachable True (run editing_events (init_system True))
   \<and> isEditing (run editing_events (init_system True))
   \<and> controls (run editing_events (init_system True)) = Some False
   \<and> \<not> isEditing (dispatch MouseUp (run editing_events (init_system True)))
   \<and> controls (dispatch MouseUp (run editing_events (init_system True))) = Some True
   \<and> measurements (dispatch MouseUp (run editing_events (init_system True)))
       = [two_point_measurement]"
proof -
  let ?S = "run editing_events (init_system True)"
  have r: "reachable True ?S" by (rule reachable_run [OF reach_init])
  note T = editing_disables_controls [OF r, of 0 1 True "Some (Vector3 3 0 0)"]
  have e: "isEditing ?S" and c: "controls ?S = Some False"
    and m: "measurements ?S = [two_point_measurement]"
    by (simp_all add: editing_state)
  from T have "\<not> isEditing (dispatch MouseUp ?S)"
    and "controls (dispatch MouseUp ?S) = Some True"
    and "measurements (dispatch MouseUp ?S) = measurements ?S"
    by simp_all
  with r e c m show ?thesis by simp
qed

section \<open>Linking an annotation to a measurement\<close>

lemma getDistanceToMeasurementLines_raises:
  "2 \<le> length (points m) \<Longrightarrow> getDistanceToMeasurementLines p m = Inl TypeError"
  by (simp add: getDistanceToMeasurementLines_def getDistanceToMeasurementLines_with_def
      Utils_distancePointToLine_def getDistanceToMeasurementLines_loop.simps call_static_def)

lemma getDistanceToMeasurementLines_few:
  "length (points m) < 2 \<Longrightarrow> getDistanceToMeasurementLines_with f p m = Inr Infinity"
  by (simp add: getDistanceToMeasurementLines_with_def)

lemma findEnclosingMeasurement_raises:
  assumes "ms \<noteq> []" and "2 \<le> length (points (ms ! 0))"
    and "\<not> (isClosed (ms ! 0) \<and> 3 \<le> length (points (ms ! 0))
            \<and> isPointInPolygon p (points (ms ! 0)))"
  shows "findEnclosingMeasurement (Some ms) p = Inl TypeError"
proof -
  have "getDistanceToMeasurementLines_with Utils_distancePointToLine p (ms ! 0) = Inl TypeError"
    using getDistanceToMeasurementLines_raises [OF assms(2)]
    by (simp add: getDistanceToMeasurementLines_def)
  then show ?thesis
    using assms(1,3)
    by (subst findEnclosingMeasurement_def, subst findEnclosingMeasurement_with_def,
        simp, subst findEnclosingMeasurement_loop.simps) (auto simp add: Let_def)
qed

text \<open>
  C1. The claim: with no inside match, \<^verbatim>\<open>findEnclosingMeasurement\<close> takes the minimum
  point-to-segment distance over all segments of all measurements and returns a
  \<open>near_line\<close> link when it is below 0.5, otherwise null; the helper
  \<^verbatim>\<open>Utils.distancePointToLine\<close> must exist. Class \<^verbatim>\<open>Utils\<close> has no such method, so
  the first segment that is looked at raises a TypeError: for the single open measurement
  from \<open>(0,0,0)\<close> to \<open>(3,0,0)\<close> and the point \<open>(1, 0, 0.25)\<close>, a quarter of a unit
  from the segment, no link is returned.
\<close>

theorem findEnclosingMeasurement_near_line_raises:
  "findEnclosingMeasurement (Some [two_point_measurement]) (Vector3 1 0 0.25) = Inl TypeError"
  by (rule findEnclosingMeasurement_raises) (simp_all add: two_point_measurement_def)

lemma isPointInPolygon_unit_square_quarter:
  "isPointInPolygon (Vector3 0.5 0 0.25) (unit_square 0 0 0 0)"
  by (simp add: isPointInPolygon_def unit_square_def isPointInPolygon_loop.simps Let_def)

text \<open>
  C6. The claim: a point inside a closed measurement gets the \<open>inside\<close> link even when an
  open measurement passes within 0.5 of it. The point \<open>(0.5, 0, 0.25)\<close> is inside the
  closed unit square and a quarter of a unit from the open segment from \<open>(0,0,0)\<close> to
  \<open>(3,0,0)\<close>. With the open measurement first in the array, its line distance is asked
  for before the square is reached, and the missing \<^verbatim>\<open>Utils.distancePointToLine\<close>
  raises a TypeError: no link is returned.
\<close>

theorem findEnclosingMeasurement_inside_raises:
  "isClosed closed_square \<and> 3 \<le> length (points closed_square)
   \<and> isPointInPolygon (Vector3 0.5 0 0.25) (points closed_square)
   \<and> findEnclosingMeasurement (Some [two_point_measurement, closed_square])
        (Vector3 0.5 0 0.25) = Inl TypeError"
proof -
  have "findEnclosingMeasurement (Some [two_point_measurement, closed_square])
        (Vector3 0.5 0 0.25) = Inl TypeError"
    by (rule findEnclosingMeasurement_raises) (simp_all add: two_point_measurement_def)
  then show ?thesis
    using isPointInPolygon_unit_square_quarter
    by (simp add: closed_square_def unit_square_def)
qed

subsection \<open>The same loop with a helper supplied\<close>

text \<open>
  Were \<^verbatim>\<open>Utils.distancePointToLine\<close> any function \<open>d\<close>, the line distance would
  never raise, and the loop would return the \<open>inside\<close> link of the first closed polygon
  (of at least three points) that holds the point, whatever near-line candidate the
  measurements before it gave.
\<close>

lemma getDistanceToMeasurementLines_loop_returns:
  "\<exists>r. getDistanceToMeasurementLines_loop (Some d) p pts i acc = Inr r"
proof (induction "Some d" p pts i acc rule: getDistanceToMeasurementLines_loop.induct)
  case (1 point pts i minDistance)
  show ?case
  proof (cases "i < length pts")
    case True
    then show ?thesis
      using "1.hyps" [OF True, of "d point (pts ! (i - 1)) (pts ! i)"]
      by (subst getDistanceToMeasurementLines_loop.simps) (simp add: call_static_def)
  next
    case False
    then show ?thesis by (subst getDistanceToMeasurementLines_loop.simps) simp
  qed
qed

lemma getDistanceToMeasurementLines_with_returns: "\<exists>r. getDistanceToMeasurementLines_with (Some d) p m = Inr r"
proof -
  obtain r where "getDistanceToMeasurementLines_loop (Some d) p (points m) 1 Infinity = Inr r"
    using getDistanceToMeasurementLines_loop_returns by blast
  then show ?thesis
    by (simp add: getDistanceToMeasurementLines_with_def call_static_def)
qed

lemma findEnclosingMeasurement_loop_inside_first:
  assumes k: "k < length ms"
    and hit: "isClosed (ms ! k) \<and> 3 \<le> length (points (ms ! k))
              \<and> isPointInPolygon p (points (ms ! k))"
    and miss: "\<forall>j. i \<le> j \<and> j < k \<longrightarrow>
                 \<not> (isClosed (ms ! j) \<and> 3 \<le> length (points (ms ! j))
                    \<and> isPointInPolygon p (points (ms ! j)))"
    and ik: "i \<le> k"
  shows "findEnclosingMeasurement_loop (Some d) p ms i best bd =
           Inr (Some \<lparr>link_measurement = k, link_relationship = inside,
                      link_distance = Finite 0\<rparr>)"
  using ik miss
proof (induction "k - i" arbitrary: i best bd)
  case 0
  then have "i = k" by simp
  then show ?case
    using k hit by (subst findEnclosingMeasurement_loop.simps) (simp add: Let_def)
next
  case (Suc n)
  then have lt: "i < k" and n: "n = k - (i + 1)" and le: "i + 1 \<le> k" by simp_all
  have i: "i < length ms" using lt k by simp
  have no: "\<not> (isClosed (ms ! i) \<and> 3 \<le> length (points (ms ! i))
                \<and> isPointInPolygon p (points (ms ! i)))"
    using Suc.prems(2) lt by simp
  have rest: "\<forall>j. i + 1 \<le> j \<and> j < k \<longrightarrow>
                 \<not> (isClosed (ms ! j) \<and> 3 \<le> length (points (ms ! j))
                    \<and> isPointInPolygon p (points (ms ! j)))"
    using Suc.prems(2) by simp
  obtain r where r: "getDistanceToMeasurementLines_with (Some d) p (ms ! i) = Inr r"
    using getDistanceToMeasurementLines_with_returns by blast
  note IH = Suc.hyps(1) [OF n le rest]
  show ?case
    using i no r IH
    by (subst findEnclosingMeasurement_loop.simps) (auto simp add: Let_def)
qed


lemma findEnclosingMeasurement_with_inside_first:
  assumes "k < length ms"
    and "isClosed (ms ! k) \<and> 3 \<le> length (points (ms ! k))
         \<and> isPointInPolygon p (points (ms ! k))"
    and "\<forall>j. j < k \<longrightarrow>
           \<not> (isClosed (ms ! j) \<and> 3 \<le> length (points (ms ! j))
              \<and> isPointInPolygon p (points (ms ! j)))"
  shows "findEnclosingMeasurement_with (Some d) (Some ms) p =
           Inr (Some \<lparr>link_measurement = k, link_relationship = inside,
                      link_distance = Finite 0\<rparr>)"
  using findEnclosingMeasurement_loop_inside_first [OF assms(1,2), of 0 d None Infinity]
        assms(3)
  by (simp add: findEnclosingMeasurement_with_def)

text \<open>
  With a helper \<open>d\<close> the line distance of a measurement is the minimum, taken by
  \<^verbatim>\<open>Math.min\<close> from \<^verbatim>\<open>Infinity\<close>, of \<open>d\<close> over its consecutive segments and, for a
  closed measurement of at least three points, its closing segment. When no closed
  polygon holds the point, the loop returns null if no line distance is below 0.5, and
  otherwise the \<open>near_line\<close> link of the first measurement whose line distance is the
  least.
\<close>

lemma num_less_irrefl: "\<not> num_less a a"
  by (cases a) simp_all

lemma num_less_trans: "num_less a b \<Longrightarrow> num_less b c \<Longrightarrow> num_less a c"
  by (cases a; cases b; cases c) simp_all

lemma num_less_linear: "num_less a b \<or> a = b \<or> num_less b a"
  by (cases a; cases b) auto

lemma num_less_asym: "num_less a b \<Longrightarrow> \<not> num_less b a"
  by (cases a; cases b) simp_all

lemma getDistanceToMeasurementLines_loop_foldl:
  "getDistanceToMeasurementLines_loop (Some d) p pts i acc =
     Inr (foldl Math_min acc
            (map (\<lambda>k. Finite (d p (pts ! (k - 1)) (pts ! k))) [i..<length pts]))"
proof (induction "Some d" p pts i acc rule: getDistanceToMeasurementLines_loop.induct)
  case (1 point pts i minDistance)
  show ?case
  proof (cases "i < length pts")
    case True
    then show ?thesis
      using "1.hyps" [OF True, of "d point (pts ! (i - 1)) (pts ! i)"]
      by (subst getDistanceToMeasurementLines_loop.simps)
         (simp add: call_static_def upt_conv_Cons)
  next
    case False
    then show ?thesis by (subst getDistanceToMeasurementLines_loop.simps) simp
  qed
qed

lemma getDistanceToMeasurementLines_with_foldl:
  "getDistanceToMeasurementLines_with (Some d) p m =
     Inr (if length (points m) < 2 then Infinity
          else foldl Math_min Infinity
                 (map (\<lambda>k. Finite (d p (points m ! (k - 1)) (points m ! k)))
                      [1..<length (points m)]
                  @ (if isClosed m \<and> 3 \<le> length (points m)
                     then [Finite (d p (points m ! (length (points m) - 1)) (points m ! 0))]
                     else [])))"
  by (simp add: getDistanceToMeasurementLines_with_def
      getDistanceToMeasurementLines_loop_foldl call_static_def)

lemma lineDistance_with_eq:
  "getDistanceToMeasurementLines_with (Some d) p m = Inr (lineDistance_with d p m)"
  by (simp add: lineDistance_with_def getDistanceToMeasurementLines_with_foldl)

lemma findEnclosingMeasurement_loop_near_line:
  assumes none: "\<forall>j. i \<le> j \<and> j < length ms \<longrightarrow> \<not> encloses p (ms ! j)"
  shows "\<exists>res. findEnclosingMeasurement_loop (Some d) p ms i best bd = Inr res
     \<and> ((res = best
          \<and> (\<forall>j. i \<le> j \<and> j < length ms \<longrightarrow>
                \<not> (num_less (lineDistance_with d p (ms ! j)) (Finite 0.5)
                   \<and> num_less (lineDistance_with d p (ms ! j)) bd)))
        \<or> (\<exists>k. i \<le> k \<and> k < length ms
              \<and> res = Some \<lparr>link_measurement = k, link_relationship = near_line,
                             link_distance = lineDistance_with d p (ms ! k)\<rparr>
              \<and> num_less (lineDistance_with d p (ms ! k)) (Finite 0.5)
              \<and> num_less (lineDistance_with d p (ms ! k)) bd
              \<and> (\<forall>j. i \<le> j \<and> j < length ms \<longrightarrow>
                    \<not> num_less (lineDistance_with d p (ms ! j))
                                (lineDistance_with d p (ms ! k)))
              \<and> (\<forall>j. i \<le> j \<and> j < k \<longrightarrow>
                    num_less (lineDistance_with d p (ms ! k))
                             (lineDistance_with d p (ms ! j)))))"
  using none
proof (induction "length ms - i" arbitrary: i best bd)
  case 0
  then have ni: "\<not> i < length ms" by simp
  then have "findEnclosingMeasurement_loop (Some d) p ms i best bd = Inr best"
    by (subst findEnclosingMeasurement_loop.simps) simp
  moreover have "\<forall>j. i \<le> j \<and> j < length ms \<longrightarrow>
                \<not> (num_less (lineDistance_with d p (ms ! j)) (Finite 0.5)
                   \<and> num_less (lineDistance_with d p (ms ! j)) bd)"
    using ni by auto
  ultimately show ?case by blast
next
  case (Suc n)
  let ?ld = "\<lambda>j. lineDistance_with d p (ms ! j)"
  from Suc.hyps(2) have i: "i < length ms" and n: "n = length ms - (i + 1)" by simp_all
  have no: "\<not> encloses p (ms ! i)" using Suc.prems i by simp
  have rest: "\<forall>j. i + 1 \<le> j \<and> j < length ms \<longrightarrow> \<not> encloses p (ms ! j)"
    using Suc.prems by simp
  have split: "\<And>j. i \<le> j \<Longrightarrow> j = i \<or> i + 1 \<le> j" by arith
  show ?case
  proof (cases "num_less (?ld i) (Finite 0.5) \<and> num_less (?ld i) bd")
    case True
    let ?b = "Some \<lparr>link_measurement = i, link_relationship = near_line,
                     link_distance = ?ld i\<rparr>"
    have step: "findEnclosingMeasurement_loop (Some d) p ms i best bd =
                findEnclosingMeasurement_loop (Some d) p ms (i + 1) ?b (?ld i)"
      using i no True
      by (subst findEnclosingMeasurement_loop.simps)
         (auto simp add: Let_def encloses_def lineDistance_with_eq)
    from Suc.hyps(1) [OF n rest, of ?b "?ld i"]
    obtain res where res: "findEnclosingMeasurement_loop (Some d) p ms (i + 1) ?b (?ld i) = Inr res"
      and alt: "(res = ?b
          \<and> (\<forall>j. i + 1 \<le> j \<and> j < length ms \<longrightarrow>
                \<not> (num_less (?ld j) (Finite 0.5) \<and> num_less (?ld j) (?ld i))))
        \<or> (\<exists>k. i + 1 \<le> k \<and> k < length ms
              \<and> res = Some \<lparr>link_measurement = k, link_relationship = near_line,
                             link_distance = ?ld k\<rparr>
              \<and> num_less (?ld k) (Finite 0.5)
              \<and> num_less (?ld k) (?ld i)
              \<and> (\<forall>j. i + 1 \<le> j \<and> j < length ms \<longrightarrow> \<not> num_less (?ld j) (?ld k))
              \<and> (\<forall>j. i + 1 \<le> j \<and> j < k \<longrightarrow> num_less (?ld k) (?ld j)))"
      by blast
    from alt show ?thesis
    proof
      assume a: "res = ?b
          \<and> (\<forall>j. i + 1 \<le> j \<and> j < length ms \<longrightarrow>
                \<not> (num_less (?ld j) (Finite 0.5) \<and> num_less (?ld j) (?ld i)))"
      have min: "\<forall>j. i \<le> j \<and> j < length ms \<longrightarrow> \<not> num_less (?ld j) (?ld i)"
      proof (intro allI impI)
        fix j assume j: "i \<le> j \<and> j < length ms"
        show "\<not> num_less (?ld j) (?ld i)"
        proof (cases "j = i")
          case True
          then show ?thesis by (simp add: num_less_irrefl)
        next
          case False
          then have "i + 1 \<le> j" using j by arith
          then have "\<not> (num_less (?ld j) (Finite 0.5) \<and> num_less (?ld j) (?ld i))"
            using a j by blast
          then show ?thesis using True num_less_trans by blast
        qed
      qed
      have "i \<le> i \<and> i < length ms \<and> res = ?b
            \<and> num_less (?ld i) (Finite 0.5) \<and> num_less (?ld i) bd
            \<and> (\<forall>j. i \<le> j \<and> j < length ms \<longrightarrow> \<not> num_less (?ld j) (?ld i))
            \<and> (\<forall>j. i \<le> j \<and> j < i \<longrightarrow> num_less (?ld i) (?ld j))"
        using a i True min by auto
      then show ?thesis unfolding step res by blast
    next
      assume "\<exists>k. i + 1 \<le> k \<and> k < length ms
              \<and> res = Some \<lparr>link_measurement = k, link_relationship = near_line,
                             link_distance = ?ld k\<rparr>
              \<and> num_less (?ld k) (Finite 0.5)
              \<and> num_less (?ld k) (?ld i)
              \<and> (\<forall>j. i + 1 \<le> j \<and> j < length ms \<longrightarrow> \<not> num_less (?ld j) (?ld k))
              \<and> (\<forall>j. i + 1 \<le> j \<and> j < k \<longrightarrow> num_less (?ld k) (?ld j))"
      then obtain k where k: "i + 1 \<le> k" "k < length ms"
        and rk: "res = Some \<lparr>link_measurement = k, link_relationship = near_line,
                             link_distance = ?ld k\<rparr>"
        and k5: "num_less (?ld k) (Finite 0.5)" and ki: "num_less (?ld k) (?ld i)"
        and kmin: "\<forall>j. i + 1 \<le> j \<and> j < length ms \<longrightarrow> \<not> num_less (?ld j) (?ld k)"
        and kfirst: "\<forall>j. i + 1 \<le> j \<and> j < k \<longrightarrow> num_less (?ld k) (?ld j)"
        by blast
      have kbd: "num_less (?ld k) bd" using ki True num_less_trans by blast
      have min: "\<forall>j. i \<le> j \<and> j < length ms \<longrightarrow> \<not> num_less (?ld j) (?ld k)"
        using kmin ki num_less_asym split by blast
      have first: "\<forall>j. i \<le> j \<and> j < k \<longrightarrow> num_less (?ld k) (?ld j)"
        using kfirst ki split by blast
      have "i \<le> k" using k by simp
      then show ?thesis unfolding step res using k rk k5 kbd min first by blast
    qed
  next
    case False
    have step: "findEnclosingMeasurement_loop (Some d) p ms i best bd =
                findEnclosingMeasurement_loop (Some d) p ms (i + 1) best bd"
      using i no False
      by (subst findEnclosingMeasurement_loop.simps)
         (auto simp add: Let_def encloses_def lineDistance_with_eq)
    from Suc.hyps(1) [OF n rest, of best bd]
    obtain res where res: "findEnclosingMeasurement_loop (Some d) p ms (i + 1) best bd = Inr res"
      and alt: "(res = best
          \<and> (\<forall>j. i + 1 \<le> j \<and> j < length ms \<longrightarrow>
                \<not> (num_less (?ld j) (Finite 0.5) \<and> num_less (?ld j) bd)))
        \<or> (\<exists>k. i + 1 \<le> k \<and> k < length ms
              \<and> res = Some \<lparr>link_measurement = k, link_relationship = near_line,
                             link_distance = ?ld k\<rparr>
              \<and> num_less (?ld k) (Finite 0.5)
              \<and> num_less (?ld k) bd
              \<and> (\<forall>j. i + 1 \<le> j \<and> j < length ms \<longrightarrow> \<not> num_less (?ld j) (?ld k))
              \<and> (\<forall>j. i + 1 \<le> j \<and> j < k \<longrightarrow> num_less (?ld k) (?ld j)))"
      by blast
    from alt show ?thesis
    proof
      assume a: "res = best
          \<and> (\<forall>j. i + 1 \<le> j \<and> j < length ms \<longrightarrow>
                \<not> (num_less (?ld j) (Finite 0.5) \<and> num_less (?ld j) bd))"
      have "\<forall>j. i \<le> j \<and> j < length ms \<longrightarrow>
                \<not> (num_less (?ld j) (Finite 0.5) \<and> num_less (?ld j) bd)"
        using a False split by blast
      then show ?thesis unfolding step res using a by blast
    next
      assume "\<exists>k. i + 1 \<le> k \<and> k < length ms
              \<and> res = Some \<lparr>link_measurement = k, link_relationship = near_line,
                             link_distance = ?ld k\<rparr>
              \<and> num_less (?ld k) (Finite 0.5)
              \<and> num_less (?ld k) bd
              \<and> (\<forall>j. i + 1 \<le> j \<and> j < length ms \<longrightarrow> \<not> num_less (?ld j) (?ld k))
              \<and> (\<forall>j. i + 1 \<le> j \<and> j < k \<longrightarrow> num_less (?ld k) (?ld j))"
      then obtain k where k: "i + 1 \<le> k" "k < length ms"
        and rk: "res = Some \<lparr>link_measurement = k, link_relationship = near_line,
                             link_distance = ?ld k\<rparr>"
        and k5: "num_less (?ld k) (Finite 0.5)" and kbd: "num_less (?ld k) bd"
        and kmin: "\<forall>j. i + 1 \<le> j \<and> j < length ms \<longrightarrow> \<not> num_less (?ld j) (?ld k)"
        and kfirst: "\<forall>j. i + 1 \<le> j \<and> j < k \<longrightarrow> num_less (?ld k) (?ld j)"
        by blast
      have ni: "\<not> num_less (?ld i) (?ld k)"
        using False k5 kbd num_less_trans by blast
      have ne: "?ld i \<noteq> ?ld k" using False k5 kbd by auto
      have ki: "num_less (?ld k) (?ld i)" using ni ne num_less_linear by blast
      have min: "\<forall>j. i \<le> j \<and> j < length ms \<longrightarrow> \<not> num_less (?ld j) (?ld k)"
        using kmin ni split by blast
      have first: "\<forall>j. i \<le> j \<and> j < k \<longrightarrow> num_less (?ld k) (?ld j)"
        using kfirst ki split by blast
      have "i \<le> k" using k by simp
      then show ?thesis unfolding step res using k rk k5 kbd min first by blast
    qed
  qed
qed


lemma num_less_Infinity: "num_less a (Finite x) \<Longrightarrow> num_less a Infinity"
  by (cases a) simp_all

lemma findEnclosingMeasurement_with_near_line:
  assumes "\<forall>j. j < length ms \<longrightarrow> \<not> encloses p (ms ! j)"
  shows "\<exists>res. findEnclosingMeasurement_with (Some d) (Some ms) p = Inr res
     \<and> ((res = None
          \<and> (\<forall>j. j < length ms \<longrightarrow>
                \<not> num_less (lineDistance_with d p (ms ! j)) (Finite 0.5)))
        \<or> (\<exists>k. k < length ms
              \<and> res = Some \<lparr>link_measurement = k, link_relationship = near_line,
                             link_distance = lineDistance_with d p (ms ! k)\<rparr>
              \<and> num_less (lineDistance_with d p (ms ! k)) (Finite 0.5)
              \<and> (\<forall>j. j < length ms \<longrightarrow>
                    \<not> num_less (lineDistance_with d p (ms ! j))
                                (lineDistance_with d p (ms ! k)))
              \<and> (\<forall>j. j < k \<longrightarrow>
                    num_less (lineDistance_with d p (ms ! k))
                             (lineDistance_with d p (ms ! j)))))"
proof -
  let ?ld = "\<lambda>j. lineDistance_with d p (ms ! j)"
  have "\<forall>j. 0 \<le> j \<and> j < length ms \<longrightarrow> \<not> encloses p (ms ! j)"
    using assms by simp
  note L = findEnclosingMeasurement_loop_near_line [OF this, of d None Infinity]
  then obtain res where
    r: "findEnclosingMeasurement_loop (Some d) p ms 0 None Infinity = Inr res"
    and alt: "(res = None
          \<and> (\<forall>j. 0 \<le> j \<and> j < length ms \<longrightarrow>
                \<not> (num_less (?ld j) (Finite 0.5) \<and> num_less (?ld j) Infinity)))
        \<or> (\<exists>k. 0 \<le> k \<and> k < length ms
              \<and> res = Some \<lparr>link_measurement = k, link_relationship = near_line,
                             link_distance = ?ld k\<rparr>
              \<and> num_less (?ld k) (Finite 0.5)
              \<and> num_less (?ld k) Infinity
              \<and> (\<forall>j. 0 \<le> j \<and> j < length ms \<longrightarrow> \<not> num_less (?ld j) (?ld k))
              \<and> (\<forall>j. 0 \<le> j \<and> j < k \<longrightarrow> num_less (?ld k) (?ld j)))"
    by (elim exE conjE) (rule that)
  have w: "findEnclosingMeasurement_with (Some d) (Some ms) p = Inr res"
    using r by (simp add: findEnclosingMeasurement_with_def)
  from alt show ?thesis
  proof (elim disjE exE conjE)
    assume n: "res = None"
      and a: "\<forall>j. 0 \<le> j \<and> j < length ms \<longrightarrow>
                \<not> (num_less (?ld j) (Finite 0.5) \<and> num_less (?ld j) Infinity)"
    have "\<forall>j. j < length ms \<longrightarrow> \<not> num_less (?ld j) (Finite 0.5)"
    proof (intro allI impI notI)
      fix j assume "j < length ms" and l: "num_less (?ld j) (Finite 0.5)"
      then have "\<not> (num_less (?ld j) (Finite 0.5) \<and> num_less (?ld j) Infinity)"
        using a by simp
      then show False using l num_less_Infinity [OF l] by simp
    qed
    with n w show ?thesis by (intro exI [of _ res] conjI disjI1)
  next
    fix k
    assume k: "k < length ms"
      and rk: "res = Some \<lparr>link_measurement = k, link_relationship = near_line,
                             link_distance = ?ld k\<rparr>"
      and k5: "num_less (?ld k) (Finite 0.5)"
      and kmin: "\<forall>j. 0 \<le> j \<and> j < length ms \<longrightarrow> \<not> num_less (?ld j) (?ld k)"
      and kfirst: "\<forall>j. 0 \<le> j \<and> j < k \<longrightarrow> num_less (?ld k) (?ld j)"
    have m: "\<forall>j. j < length ms \<longrightarrow> \<not> num_less (?ld j) (?ld k)"
      using kmin by simp
    have f: "\<forall>j. j < k \<longrightarrow> num_less (?ld k) (?ld j)"
      using kfirst by simp
    have "\<exists>k. k < length ms
              \<and> res = Some \<lparr>link_measurement = k, link_relationship = near_line,
                             link_distance = ?ld k\<rparr>
              \<and> num_less (?ld k) (Finite 0.5)
              \<and> (\<forall>j. j < length ms \<longrightarrow> \<not> num_less (?ld j) (?ld k))
              \<and> (\<forall>j. j < k \<longrightarrow> num_less (?ld k) (?ld j))"
      using k rk k5 m f by (intro exI [of _ k] conjI)
    with w show ?thesis by (intro exI [of _ res] conjI disjI2)
  qed
qed

end
